theory Spec2Isabelle
  imports Main
begin

section \<open>Python values, dictionaries and exceptions\<close>

text \<open>
  The SDK moves JSON-like data around: dictionaries with string keys whose values are
  \<open>None\<close>, booleans, integers or strings. Dataclass fields are not type-checked by
  Python, so a field holds whatever value the dictionary carried.
\<close>

datatype pyval = PNone | PBool bool | PInt int | PStr string

type_synonym dict = "string \<rightharpoonup> pyval"

datatype error = KeyError string | ValueError pyval | FleeksError string

text \<open>\<open>data.get(key, default)\<close>: the default only when the key is absent.\<close>

definition dict_get :: "dict \<Rightarrow> string \<Rightarrow> pyval \<Rightarrow> pyval" where
  "dict_get data key dflt = (case data key of None \<Rightarrow> dflt | Some v \<Rightarrow> v)"

text \<open>\<open>data[key]\<close>: raises \<open>KeyError\<close> when the key is absent.\<close>

definition dict_getitem :: "(string \<rightharpoonup> 'v) \<Rightarrow> string \<Rightarrow> error + 'v" where
  "dict_getitem data key = (case data key of None \<Rightarrow> Inl (KeyError key) | Some v \<Rightarrow> Inr v)"

section \<open>lifecycle.py: enumerations\<close>

text \<open>\<open>class IdleAction(str, Enum)\<close>, members in source order.\<close>

datatype IdleAction = SHUTDOWN | HIBERNATE | KEEP_ALIVE

fun IdleAction_value :: "IdleAction \<Rightarrow> string" where
  "IdleAction_value SHUTDOWN = ''shutdown''"
| "IdleAction_value HIBERNATE = ''hibernate''"
| "IdleAction_value KEEP_ALIVE = ''keep_alive''"

definition IdleAction_members :: "IdleAction list" where
  "IdleAction_members = [SHUTDOWN, HIBERNATE, KEEP_ALIVE]"

text \<open>
  \<open>IdleAction(v)\<close>: the member whose value equals \<open>v\<close>, \<open>ValueError\<close> when there is
  none.
\<close>

definition IdleAction_call :: "pyval \<Rightarrow> error + IdleAction" where
  "IdleAction_call v =
     (case find (\<lambda>m. PStr (IdleAction_value m) = v) IdleAction_members of
        None \<Rightarrow> Inl (ValueError v)
      | Some m \<Rightarrow> Inr m)"

text \<open>\<open>class LifecycleState(str, Enum)\<close>, members in source order.\<close>

datatype LifecycleState = RUNNING | HIBERNATING | STOPPED | STARTING | WAKING

fun LifecycleState_value :: "LifecycleState \<Rightarrow> string" where
  "LifecycleState_value RUNNING = ''running''"
| "LifecycleState_value HIBERNATING = ''hibernating''"
| "LifecycleState_value STOPPED = ''stopped''"
| "LifecycleState_value STARTING = ''starting''"
| "LifecycleState_value WAKING = ''waking''"

section \<open>lifecycle.py: \<open>LifecycleConfig\<close>\<close>

text \<open>
  The dataclass and its defaults. \<open>idle_action\<close> is an \<open>IdleAction\<close>: \<open>to_dict\<close>
  reads its \<open>.value\<close> and \<open>from_dict\<close> builds it with \<open>IdleAction(...)\<close>. The other
  fields are stored as given.
\<close>

record LifecycleConfig =
  idle_timeout_minutes :: pyval
  max_duration_hours :: pyval
  idle_action :: IdleAction
  auto_wake :: pyval
  keep_alive_on_preview :: pyval
  heartbeat_interval_seconds :: pyval

definition LifecycleConfig_default :: LifecycleConfig where
  "LifecycleConfig_default =
     \<lparr> idle_timeout_minutes = PInt 30,
       max_duration_hours = PNone,
       idle_action = SHUTDOWN,
       auto_wake = PBool True,
       keep_alive_on_preview = PBool False,
       heartbeat_interval_seconds = PInt 300 \<rparr>"

definition LifecycleConfig_to_dict :: "LifecycleConfig \<Rightarrow> dict" where
  "LifecycleConfig_to_dict self =
     [ ''idle_timeout_minutes'' \<mapsto> idle_timeout_minutes self,
       ''max_duration_hours'' \<mapsto> max_duration_hours self,
       ''idle_action'' \<mapsto> PStr (IdleAction_value (idle_action self)),
       ''auto_wake'' \<mapsto> auto_wake self,
       ''keep_alive_on_preview'' \<mapsto> keep_alive_on_preview self,
       ''heartbeat_interval_seconds'' \<mapsto> heartbeat_interval_seconds self ]"

definition LifecycleConfig_from_dict :: "dict \<Rightarrow> error + LifecycleConfig" where
  "LifecycleConfig_from_dict data =
     (case IdleAction_call (dict_get data ''idle_action'' (PStr ''shutdown'')) of
        Inl e \<Rightarrow> Inl e
      | Inr action \<Rightarrow>
          Inr \<lparr> idle_timeout_minutes = dict_get data ''idle_timeout_minutes'' (PInt 30),
                max_duration_hours = dict_get data ''max_duration_hours'' PNone,
                idle_action = action,
                auto_wake = dict_get data ''auto_wake'' (PBool True),
                keep_alive_on_preview = dict_get data ''keep_alive_on_preview'' (PBool False),
                heartbeat_interval_seconds =
                  dict_get data ''heartbeat_interval_seconds'' (PInt 300) \<rparr>)"

section \<open>lifecycle.py: \<open>TimeoutExtensionResponse\<close>\<close>

record TimeoutExtensionResponse =
  container_id :: pyval
  success :: pyval
  new_timeout_at :: pyval
  added_minutes :: pyval
  max_allowed_minutes :: pyval
  message :: pyval
  minutes_extended :: pyval

text \<open>
  \<open>added\<close> is read first; the two subscripted keys raise \<open>KeyError\<close> in argument
  order.
\<close>

definition TimeoutExtensionResponse_from_dict :: "dict \<Rightarrow> error + TimeoutExtensionResponse" where
  "TimeoutExtensionResponse_from_dict data =
     (let added = dict_get data ''added_minutes'' (PInt 0) in
      case dict_getitem data ''container_id'' of
        Inl e \<Rightarrow> Inl e
      | Inr cid \<Rightarrow>
          (case dict_getitem data ''new_timeout_at'' of
             Inl e \<Rightarrow> Inl e
           | Inr nta \<Rightarrow>
               Inr \<lparr> container_id = cid,
                     success = dict_get data ''success'' (PBool True),
                     new_timeout_at = nta,
                     added_minutes = added,
                     max_allowed_minutes = dict_get data ''max_allowed_minutes'' (PInt 30),
                     message = dict_get data ''message'' (PStr ''''),
                     minutes_extended = dict_get data ''minutes_extended'' added \<rparr>))"

section \<open>lifecycle.py: \<open>TIER_LIMITS\<close>\<close>

text \<open>
  The table is a dictionary literal; Python dictionaries keep insertion order, so the
  outer dictionary is kept as its list of items and looked up through \<open>map_of\<close>.
\<close>

definition TIER_LIMITS_items :: "(string \<times> dict) list" where
  "TIER_LIMITS_items =
     [ (''FREE'',
          [ ''max_idle_timeout_minutes'' \<mapsto> PInt 30,
            ''max_extensions'' \<mapsto> PInt 0,
            ''hibernate'' \<mapsto> PBool False,
            ''keep_alive'' \<mapsto> PBool False ]),
       (''BASIC'',
          [ ''max_idle_timeout_minutes'' \<mapsto> PInt 60,
            ''max_extensions'' \<mapsto> PInt 2,
            ''hibernate'' \<mapsto> PBool False,
            ''keep_alive'' \<mapsto> PBool False ]),
       (''PRO'',
          [ ''max_idle_timeout_minutes'' \<mapsto> PInt 120,
            ''max_extensions'' \<mapsto> PInt 5,
            ''hibernate'' \<mapsto> PBool True,
            ''keep_alive'' \<mapsto> PBool False ]),
       (''ULTIMATE'',
          [ ''max_idle_timeout_minutes'' \<mapsto> PInt 240,
            ''max_extensions'' \<mapsto> PInt 10,
            ''hibernate'' \<mapsto> PBool True,
            ''keep_alive'' \<mapsto> PBool False ]),
       (''ENTERPRISE'',
          [ ''max_idle_timeout_minutes'' \<mapsto> PNone,
            ''max_extensions'' \<mapsto> PNone,
            ''hibernate'' \<mapsto> PBool True,
            ''keep_alive'' \<mapsto> PBool True ]) ]"

definition TIER_LIMITS :: "string \<rightharpoonup> dict" where
  "TIER_LIMITS = map_of TIER_LIMITS_items"

text \<open>\<open>TIER_LIMITS[tier][key]\<close>: either subscript raises \<open>KeyError\<close>.\<close>

definition tier_limit :: "string \<Rightarrow> string \<Rightarrow> error + pyval" where
  "tier_limit tier key =
     (case dict_getitem TIER_LIMITS tier of
        Inl e \<Rightarrow> Inl e
      | Inr limits \<Rightarrow> dict_getitem limits key)"

section \<open>containers.py: \<open>ContainerManager.extend_timeout\<close>\<close>

text \<open>
  The HTTP client is not part of the modelled files: \<open>client._make_request\<close> is a
  parameter that takes the request and returns the response dictionary or raises.
\<close>

record http_request =
  req_method :: string
  req_path :: string
  req_json :: dict

definition extend_timeout_request :: "string \<Rightarrow> int \<Rightarrow> http_request" where
  "extend_timeout_request self_container_id additional_minutes =
     \<lparr> req_method = ''POST'',
       req_path = ''containers/'' @ self_container_id @ ''/extend-timeout'',
       req_json = [ ''additional_minutes'' \<mapsto> PInt (max 1 (min 480 additional_minutes)) ] \<rparr>"

definition extend_timeout ::
  "(http_request \<Rightarrow> error + dict) \<Rightarrow> string \<Rightarrow> int \<Rightarrow> error + TimeoutExtensionResponse" where
  "extend_timeout make_request self_container_id additional_minutes =
     (case make_request (extend_timeout_request self_container_id additional_minutes) of
        Inl e \<Rightarrow> Inl e
      | Inr response \<Rightarrow> TimeoutExtensionResponse_from_dict response)"

section \<open>Tier policy checks of the lifecycle controller\<close>

datatype controller_error = InvalidTierError | TierLimitExceededError

text \<open>
  Modelled from the spec: \<open>TierPolicy.limits\<close> (section 4.1), which the SDK sources do
  not contain; they hold only the table. The lookup reads \<open>TIER_LIMITS\<close> and an unknown
  tier is \<open>InvalidTierError\<close>.
\<close>

definition limits :: "string \<Rightarrow> controller_error + dict" where
  "limits tier =
     (case TIER_LIMITS tier of None \<Rightarrow> Inl InvalidTierError | Some l \<Rightarrow> Inr l)"

text \<open>
  Modelled from the spec: the tier check of the controller's \<open>extend_timeout\<close> (section
  4.5), which runs on the backend and is not in the SDK sources. It fails with
  \<open>TierLimitExceededError\<close> when \<open>extensions_used \<ge> max_extensions\<close> (a null
  \<open>max_extensions\<close> is unlimited) and otherwise increments \<open>extensions_used\<close>. Only the
  extension counter is modelled; the check does not depend on the requested minutes.
\<close>

definition controller_extend_timeout :: "string \<Rightarrow> nat \<Rightarrow> controller_error + nat" where
  "controller_extend_timeout owner_tier extensions_used =
     (case limits owner_tier of
        Inl e \<Rightarrow> Inl e
      | Inr l \<Rightarrow>
          (case l ''max_extensions'' of
             Some (PInt cap) \<Rightarrow>
               if cap \<le> int extensions_used then Inl TierLimitExceededError
               else Inr (Suc extensions_used)
           | _ \<Rightarrow> Inr (Suc extensions_used)))"

text \<open>
  Modelled from the spec: the tier check of the controller's \<open>set_keep_alive\<close> (section
  4.5), likewise absent from the SDK sources. Enabling fails with
  \<open>TierLimitExceededError\<close> when the tier lacks \<open>keep_alive\<close>; disabling is always
  permitted. The result is the new \<open>keep_alive_enabled\<close>.
\<close>

definition controller_set_keep_alive :: "string \<Rightarrow> bool \<Rightarrow> controller_error + bool" where
  "controller_set_keep_alive owner_tier enabled =
     (case limits owner_tier of
        Inl e \<Rightarrow> Inl e
      | Inr l \<Rightarrow>
          if enabled \<and> l ''keep_alive'' \<noteq> Some (PBool True)
          then Inl TierLimitExceededError
          else Inr enabled)"

section \<open>Orderings on table entries\<close>

text \<open>
  Used to state monotonicity of the table. A limit is smaller than another when both
  are integers in that order, or when the first is an integer and the second is
  \<open>None\<close> (unlimited). Capabilities are compared as booleans, \<open>False \<le> True\<close>.
\<close>

fun limit_less :: "error + pyval \<Rightarrow> error + pyval \<Rightarrow> bool" where
  "limit_less (Inr (PInt a)) (Inr (PInt b)) = (a < b)"
| "limit_less (Inr (PInt a)) (Inr PNone) = True"
| "limit_less _ _ = False"

fun capability_le :: "error + pyval \<Rightarrow> error + pyval \<Rightarrow> bool" where
  "capability_le (Inr (PBool a)) (Inr (PBool b)) = (a \<le> b)"
| "capability_le _ _ = False"

section \<open>Facts about the table\<close>

lemma TIER_LIMITS_dom:
  "dom TIER_LIMITS = {''FREE'', ''BASIC'', ''PRO'', ''ULTIMATE'', ''ENTERPRISE''}"
  by (auto simp: TIER_LIMITS_def TIER_LIMITS_items_def dom_def split: if_splits)

lemma tier_limit_FREE:
  "tier_limit ''FREE'' ''max_idle_timeout_minutes'' = Inr (PInt 30)"
  "tier_limit ''FREE'' ''max_extensions'' = Inr (PInt 0)"
  "tier_limit ''FREE'' ''hibernate'' = Inr (PBool False)"
  "tier_limit ''FREE'' ''keep_alive'' = Inr (PBool False)"
  by (simp_all add: tier_limit_def dict_getitem_def TIER_LIMITS_def TIER_LIMITS_items_def)

lemma tier_limit_BASIC:
  "tier_limit ''BASIC'' ''max_idle_timeout_minutes'' = Inr (PInt 60)"
  "tier_limit ''BASIC'' ''max_extensions'' = Inr (PInt 2)"
  "tier_limit ''BASIC'' ''hibernate'' = Inr (PBool False)"
  "tier_limit ''BASIC'' ''keep_alive'' = Inr (PBool False)"
  by (simp_all add: tier_limit_def dict_getitem_def TIER_LIMITS_def TIER_LIMITS_items_def)

lemma tier_limit_PRO:
  "tier_limit ''PRO'' ''max_idle_timeout_minutes'' = Inr (PInt 120)"
  "tier_limit ''PRO'' ''max_extensions'' = Inr (PInt 5)"
  "tier_limit ''PRO'' ''hibernate'' = Inr (PBool True)"
  "tier_limit ''PRO'' ''keep_alive'' = Inr (PBool False)"
  by (simp_all add: tier_limit_def dict_getitem_def TIER_LIMITS_def TIER_LIMITS_items_def)

lemma tier_limit_ULTIMATE:
  "tier_limit ''ULTIMATE'' ''max_idle_timeout_minutes'' = Inr (PInt 240)"
  "tier_limit ''ULTIMATE'' ''max_extensions'' = Inr (PInt 10)"
  "tier_limit ''ULTIMATE'' ''hibernate'' = Inr (PBool True)"
  "tier_limit ''ULTIMATE'' ''keep_alive'' = Inr (PBool False)"
  by (simp_all add: tier_limit_def dict_getitem_def TIER_LIMITS_def TIER_LIMITS_items_def)

lemma tier_limit_ENTERPRISE:
  "tier_limit ''ENTERPRISE'' ''max_idle_timeout_minutes'' = Inr PNone"
  "tier_limit ''ENTERPRISE'' ''max_extensions'' = Inr PNone"
  "tier_limit ''ENTERPRISE'' ''hibernate'' = Inr (PBool True)"
  "tier_limit ''ENTERPRISE'' ''keep_alive'' = Inr (PBool True)"
  by (simp_all add: tier_limit_def dict_getitem_def TIER_LIMITS_def TIER_LIMITS_items_def)

lemmas tier_limit_simps =
  tier_limit_FREE tier_limit_BASIC tier_limit_PRO tier_limit_ULTIMATE tier_limit_ENTERPRISE

lemma TIER_LIMITS_keys: "map fst TIER_LIMITS_items = [''FREE'', ''BASIC'', ''PRO'', ''ULTIMATE'', ''ENTERPRISE'']"
  by (simp add: TIER_LIMITS_items_def)

lemma IdleAction_call_value: "IdleAction_call (PStr (IdleAction_value a)) = Inr a"
  by (cases a) (simp_all add: IdleAction_call_def IdleAction_members_def)

section \<open>Claims\<close>

text \<open>
  C1. For every tier in the table, the recorded hibernate capability is true exactly
  when the tier is PRO, ULTIMATE or ENTERPRISE, and false for FREE and BASIC.
\<close>

theorem hibernate_exactly_pro_and_above:
  assumes "T \<in> dom TIER_LIMITS"
  shows "tier_limit T ''hibernate'' = Inr (PBool (T \<in> {''PRO'', ''ULTIMATE'', ''ENTERPRISE''}))"
proof -
  from assms TIER_LIMITS_dom
  have "T \<in> {''FREE'', ''BASIC'', ''PRO'', ''ULTIMATE'', ''ENTERPRISE''}" by simp
  then show ?thesis by (auto simp: tier_limit_simps)
qed

text \<open>
  C1, at concrete tiers: PRO is in the table and supports hibernation, BASIC is in the
  table and does not.
\<close>

theorem hibernate_exactly_pro_and_above_witness:
  "''PRO'' \<in> dom TIER_LIMITS \<and> tier_limit ''PRO'' ''hibernate'' = Inr (PBool True)
   \<and> ''BASIC'' \<in> dom TIER_LIMITS \<and> tier_limit ''BASIC'' ''hibernate'' = Inr (PBool False)"
proof -
  have p: "''PRO'' \<in> dom TIER_LIMITS" and b: "''BASIC'' \<in> dom TIER_LIMITS"
    by (simp_all add: TIER_LIMITS_dom)
  from hibernate_exactly_pro_and_above [OF p] hibernate_exactly_pro_and_above [OF b] p b
  show ?thesis by simp
qed

text \<open>
  C2. The FREE entry of the table has a maximum idle timeout of 30 minutes and 0
  extensions, and with these limits the controller's extension check fails with
  TierLimitExceededError for a FREE-tier container whatever its extension count.
\<close>

theorem free_tier_never_extends:
  "tier_limit ''FREE'' ''max_idle_timeout_minutes'' = Inr (PInt 30)
   \<and> tier_limit ''FREE'' ''max_extensions'' = Inr (PInt 0)
   \<and> controller_extend_timeout ''FREE'' extensions_used = Inl TierLimitExceededError"
  by (simp add: tier_limit_simps controller_extend_timeout_def limits_def
      TIER_LIMITS_def TIER_LIMITS_items_def)

text \<open>
  C3 (amended). The minutes sent in the request body of
  \<open>ContainerManager.extend_timeout\<close> are the input clamped to the fixed interval
  [1, 480], for every container and every integer input; the request carrying them is
  the one handed to the client. No tier limit enters the computation.
\<close>

theorem extend_timeout_sends_clamp_1_480:
  "req_json (extend_timeout_request cid additional_minutes) ''additional_minutes''
     = Some (PInt (if additional_minutes < 1 then 1
                   else if 480 < additional_minutes then 480
                   else additional_minutes))
   \<and> extend_timeout make_request cid additional_minutes
     = (case make_request
               \<lparr> req_method = ''POST'',
                 req_path = ''containers/'' @ cid @ ''/extend-timeout'',
                 req_json = [ ''additional_minutes'' \<mapsto>
                     PInt (if additional_minutes < 1 then 1
                           else if 480 < additional_minutes then 480
                           else additional_minutes) ] \<rparr> of
          Inl e \<Rightarrow> Inl e
        | Inr response \<Rightarrow> TimeoutExtensionResponse_from_dict response)"
  by (simp add: extend_timeout_def extend_timeout_request_def max_def min_def)

text \<open>
  C3, as stated, fails: for the input 480 the request carries 480 minutes, above the
  FREE tier's maximum idle timeout of 30 minutes, which bounds any remaining
  allowance of that tier.
\<close>

theorem extend_timeout_exceeds_free_tier_cap:
  "req_json (extend_timeout_request ''c1'' 480) ''additional_minutes'' = Some (PInt 480)
   \<and> tier_limit ''FREE'' ''max_idle_timeout_minutes'' = Inr (PInt 30)
   \<and> \<not> (480 \<le> (30::int))"
  by (simp add: extend_timeout_request_def tier_limit_simps)

text \<open>
  C4. Looking up a tier outside FREE, BASIC, PRO, ULTIMATE and ENTERPRISE returns no
  limits: the table has no entry, and subscripting it raises \<open>KeyError\<close>; there is no
  default entry.
\<close>

theorem unknown_tier_lookup_fails:
  assumes "T \<notin> {''FREE'', ''BASIC'', ''PRO'', ''ULTIMATE'', ''ENTERPRISE''}"
  shows "TIER_LIMITS T = None
         \<and> dict_getitem TIER_LIMITS T = Inl (KeyError T)
         \<and> tier_limit T key = Inl (KeyError T)"
proof -
  from assms TIER_LIMITS_dom have "T \<notin> dom TIER_LIMITS" by simp
  then have "TIER_LIMITS T = None" by blast
  then show ?thesis by (simp add: dict_getitem_def tier_limit_def)
qed

text \<open>
  C4, at a concrete unknown tier: TEAM_ENTERPRISE, the default \<open>requires_tier\<close> of
  \<open>KeepAliveResponse\<close>, is not a key of the table.
\<close>

theorem unknown_tier_lookup_fails_witness:
  "''TEAM_ENTERPRISE'' \<notin> {''FREE'', ''BASIC'', ''PRO'', ''ULTIMATE'', ''ENTERPRISE''}
   \<and> TIER_LIMITS ''TEAM_ENTERPRISE'' = None
   \<and> dict_getitem TIER_LIMITS ''TEAM_ENTERPRISE'' = Inl (KeyError ''TEAM_ENTERPRISE'')
   \<and> tier_limit ''TEAM_ENTERPRISE'' ''hibernate'' = Inl (KeyError ''TEAM_ENTERPRISE'')"
proof -
  have h: "''TEAM_ENTERPRISE'' \<notin> {''FREE'', ''BASIC'', ''PRO'', ''ULTIMATE'', ''ENTERPRISE''}"
    by simp
  from unknown_tier_lookup_fails [OF h, of "''hibernate''"] h show ?thesis by simp
qed

text \<open>
  C5. For every tier in the table, the recorded keep-alive capability is true exactly
  when the tier is ENTERPRISE, and the controller's check for enabling keep-alive
  fails with TierLimitExceededError on every other tier of the table.
\<close>

theorem keep_alive_enterprise_only:
  assumes "T \<in> dom TIER_LIMITS"
  shows "tier_limit T ''keep_alive'' = Inr (PBool (T = ''ENTERPRISE''))
         \<and> controller_set_keep_alive T True
           = (if T = ''ENTERPRISE'' then Inr True else Inl TierLimitExceededError)"
proof -
  from assms TIER_LIMITS_dom
  have "T \<in> {''FREE'', ''BASIC'', ''PRO'', ''ULTIMATE'', ''ENTERPRISE''}" by simp
  then show ?thesis
    by (auto simp: tier_limit_simps controller_set_keep_alive_def limits_def
        TIER_LIMITS_def TIER_LIMITS_items_def)
qed

text \<open>
  C5, at a concrete tier: ULTIMATE is in the table, lacks keep-alive, and enabling it
  is refused.
\<close>

theorem keep_alive_enterprise_only_witness:
  "''ULTIMATE'' \<in> dom TIER_LIMITS
   \<and> tier_limit ''ULTIMATE'' ''keep_alive'' = Inr (PBool False)
   \<and> controller_set_keep_alive ''ULTIMATE'' True = Inl TierLimitExceededError"
proof -
  have h: "''ULTIMATE'' \<in> dom TIER_LIMITS" by (simp add: TIER_LIMITS_dom)
  from keep_alive_enterprise_only [OF h] h show ?thesis by simp
qed

text \<open>
  C6. For every tier in the table: ENTERPRISE has \<open>None\<close> (unlimited) for both the
  maximum idle timeout and the maximum number of extensions, and every other tier has
  integers for both.
\<close>

theorem enterprise_only_unlimited:
  assumes "T \<in> dom TIER_LIMITS"
  shows "if T = ''ENTERPRISE''
         then tier_limit T ''max_idle_timeout_minutes'' = Inr PNone
              \<and> tier_limit T ''max_extensions'' = Inr PNone
         else (\<exists>m k. tier_limit T ''max_idle_timeout_minutes'' = Inr (PInt m)
                    \<and> tier_limit T ''max_extensions'' = Inr (PInt k))"
proof -
  from assms TIER_LIMITS_dom
  have "T \<in> {''FREE'', ''BASIC'', ''PRO'', ''ULTIMATE'', ''ENTERPRISE''}" by simp
  then show ?thesis by (auto simp: tier_limit_simps)
qed

text \<open>
  C6, at concrete tiers: ENTERPRISE is in the table and both of its limits are
  \<open>None\<close>; ULTIMATE is in the table with the integers 240 and 10.
\<close>

theorem enterprise_only_unlimited_witness:
  "''ENTERPRISE'' \<in> dom TIER_LIMITS
   \<and> tier_limit ''ENTERPRISE'' ''max_idle_timeout_minutes'' = Inr PNone
   \<and> tier_limit ''ENTERPRISE'' ''max_extensions'' = Inr PNone
   \<and> ''ULTIMATE'' \<in> dom TIER_LIMITS
   \<and> tier_limit ''ULTIMATE'' ''max_idle_timeout_minutes'' = Inr (PInt 240)
   \<and> tier_limit ''ULTIMATE'' ''max_extensions'' = Inr (PInt 10)"
proof -
  have e: "''ENTERPRISE'' \<in> dom TIER_LIMITS" and u: "''ULTIMATE'' \<in> dom TIER_LIMITS"
    by (simp_all add: TIER_LIMITS_dom)
  from enterprise_only_unlimited [OF e] enterprise_only_unlimited [OF u] e u
  show ?thesis by (simp add: tier_limit_simps)
qed

text \<open>
  C7. The lifecycle state type has exactly the five members STARTING, RUNNING,
  HIBERNATING, WAKING and STOPPED; their values are the strings "starting", "running",
  "hibernating", "waking" and "stopped"; the five members are pairwise distinct, and so
  are their values (no member is an alias of another).
\<close>

theorem LifecycleState_five_states:
  "(UNIV :: LifecycleState set) = {STARTING, RUNNING, HIBERNATING, WAKING, STOPPED}
   \<and> distinct [STARTING, RUNNING, HIBERNATING, WAKING, STOPPED]
   \<and> map LifecycleState_value [STARTING, RUNNING, HIBERNATING, WAKING, STOPPED]
       = [''starting'', ''running'', ''hibernating'', ''waking'', ''stopped'']
   \<and> inj LifecycleState_value"
proof -
  have univ: "(UNIV :: LifecycleState set) = {STARTING, RUNNING, HIBERNATING, WAKING, STOPPED}"
  proof -
    have "s \<in> {STARTING, RUNNING, HIBERNATING, WAKING, STOPPED}" for s :: LifecycleState
      by (cases s) simp_all
    then show ?thesis by blast
  qed
  have inj: "inj LifecycleState_value"
  proof (rule injI)
    fix a b :: LifecycleState
    assume "LifecycleState_value a = LifecycleState_value b"
    then show "a = b" by (cases a; cases b) simp_all
  qed
  from univ inj show ?thesis by simp
qed

text \<open>
  C8. Serialisation round trip: \<open>from_dict\<close> of \<open>to_dict\<close> returns the
  configuration it started from, for every \<open>LifecycleConfig\<close>.
\<close>

theorem LifecycleConfig_roundtrip:
  "LifecycleConfig_from_dict (LifecycleConfig_to_dict c) = Inr c"
  by (simp add: LifecycleConfig_from_dict_def LifecycleConfig_to_dict_def dict_get_def
      IdleAction_call_value)

text \<open>
  C9. The table lists the tiers in the order FREE, BASIC, PRO, ULTIMATE, ENTERPRISE.
  Along this order \<open>max_idle_timeout_minutes\<close> and \<open>max_extensions\<close> are strictly
  increasing for every pair of tiers (\<open>None\<close> counting as unbounded), and the
  \<open>hibernate\<close> and \<open>keep_alive\<close> capabilities never drop from true to false.
\<close>

theorem tier_limits_monotone:
  "map fst TIER_LIMITS_items = [''FREE'', ''BASIC'', ''PRO'', ''ULTIMATE'', ''ENTERPRISE'']
   \<and> sorted_wrt limit_less
        (map (\<lambda>t. tier_limit t ''max_idle_timeout_minutes'') (map fst TIER_LIMITS_items))
   \<and> sorted_wrt limit_less
        (map (\<lambda>t. tier_limit t ''max_extensions'') (map fst TIER_LIMITS_items))
   \<and> sorted_wrt capability_le
        (map (\<lambda>t. tier_limit t ''hibernate'') (map fst TIER_LIMITS_items))
   \<and> sorted_wrt capability_le
        (map (\<lambda>t. tier_limit t ''keep_alive'') (map fst TIER_LIMITS_items))"
  by (simp add: TIER_LIMITS_keys tier_limit_simps)

text \<open>
  C10. When the response dictionary has no key \<open>minutes_extended\<close>, the parsed
  \<open>TimeoutExtensionResponse\<close> has \<open>minutes_extended\<close> equal to
  \<open>added_minutes\<close>.
\<close>

theorem minutes_extended_defaults_to_added:
  assumes "data ''minutes_extended'' = None"
    and "TimeoutExtensionResponse_from_dict data = Inr r"
  shows "minutes_extended r = added_minutes r"
  using assms
  by (auto simp: TimeoutExtensionResponse_from_dict_def dict_get_def Let_def
      split: sum.splits)

text \<open>
  C10, at a concrete response without the alias: parsing succeeds and both fields are
  15.
\<close>

theorem minutes_extended_defaults_to_added_witness:
  "[ ''container_id'' \<mapsto> PStr ''c1'',
     ''new_timeout_at'' \<mapsto> PStr ''2025-01-01T00:30:00Z'',
     ''added_minutes'' \<mapsto> PInt 15 ] ''minutes_extended'' = None
   \<and> TimeoutExtensionResponse_from_dict
        [ ''container_id'' \<mapsto> PStr ''c1'',
          ''new_timeout_at'' \<mapsto> PStr ''2025-01-01T00:30:00Z'',
          ''added_minutes'' \<mapsto> PInt 15 ]
      = Inr \<lparr> container_id = PStr ''c1'',
              success = PBool True,
              new_timeout_at = PStr ''2025-01-01T00:30:00Z'',
              added_minutes = PInt 15,
              max_allowed_minutes = PInt 30,
              message = PStr [],
              minutes_extended = PInt 15 \<rparr>
   \<and> minutes_extended
        \<lparr> container_id = PStr ''c1'',
          success = PBool True,
          new_timeout_at = PStr ''2025-01-01T00:30:00Z'',
          added_minutes = PInt 15,
          max_allowed_minutes = PInt 30,
          message = PStr [],
          minutes_extended = PInt 15 \<rparr>
      = added_minutes
        \<lparr> container_id = PStr ''c1'',
          success = PBool True,
          new_timeout_at = PStr ''2025-01-01T00:30:00Z'',
          added_minutes = PInt 15,
          max_allowed_minutes = PInt 30,
          message = PStr [],
          minutes_extended = PInt 15 \<rparr>"
proof -
  let ?d = "[ ''container_id'' \<mapsto> PStr ''c1'',
              ''new_timeout_at'' \<mapsto> PStr ''2025-01-01T00:30:00Z'',
              ''added_minutes'' \<mapsto> PInt 15 ]"
  have absent: "?d ''minutes_extended'' = None" by simp
  have parsed: "TimeoutExtensionResponse_from_dict ?d
      = Inr \<lparr> container_id = PStr ''c1'',
              success = PBool True,
              new_timeout_at = PStr ''2025-01-01T00:30:00Z'',
              added_minutes = PInt 15,
              max_allowed_minutes = PInt 30,
              message = PStr [],
              minutes_extended = PInt 15 \<rparr>"
    by (simp add: TimeoutExtensionResponse_from_dict_def dict_get_def dict_getitem_def Let_def)
  from minutes_extended_defaults_to_added [OF absent parsed] absent parsed
  show ?thesis by blast
qed

end
